theory Spec2Isabelle
  imports Complex_Main
begin

unbundle bit_operations_syntax

section \<open>The DoQui dashboard script (app.js)\<close>

text \<open>
  The script keeps its data in module-level variables and changes them from three kinds
  of callbacks: the WebSocket handlers, the animation frame and the click handler of the
  start/stop button. The model below puts all of these variables into one record and
  turns each callback into a function from the record to the updated record.

  Numbers. A JavaScript number is an IEEE double. Where a property depends on how a
  result is rounded, the operation is modelled with its rounding: the smoothing of the
  sun's radius (line 58) and the amount added to a colour channel (lines 217 and 226) use
  \<open>plus_double\<close>, \<open>minus_double\<close> and \<open>times_double\<close>, the exact operation followed
  by rounding to the nearest double, and their literals are rounded by \<open>double_of\<close>.
  Elsewhere a number is modelled by a real number and an operation by the exact operation
  on reals, so there \<open>0.3\<close> is three tenths and \<open>Math.PI\<close> is \<open>pi\<close>. \<open>NaN\<close>, the
  infinities and results of magnitude \<open>2^1024\<close> and beyond are outside the model. Values
  that the script only ever produces as integers (the result of \<open>Math.round\<close>,
  \<open>parseInt\<close> and the bit operators) are of type \<open>int\<close>.

  Text. A string is a list of bytes; the five pictographs that the script writes into
  the page are given by their UTF-8 encoding.
\<close>

subsection \<open>Numbers and their printed form\<close>

text \<open>\<open>Math.round\<close> rounds to the nearest integer, a tie going up.\<close>

definition Math_round :: "real \<Rightarrow> int" where
  "Math_round x = \<lfloor>x + 1 / 2\<rfloor>"

text \<open>
  The decimal digits of a natural number, as a template literal prints an integer below
  \<open>10^21\<close>.
\<close>

function digits :: "nat \<Rightarrow> string" where
  "digits n = (if n < 10 then [char_of (48 + n)]
               else digits (n div 10) @ [char_of (48 + n mod 10)])"
  by pat_completeness auto
termination
  by (relation "measure id") auto

declare digits.simps [simp del]

definition toString :: "int \<Rightarrow> string" where
  "toString k = (if k < 0 then CHR ''-'' # digits (nat (- k)) else digits (nat k))"

subsection \<open>Double precision\<close>

text \<open>
  \<open>double_of x\<close> is the double nearest to \<open>x\<close>, a tie going to the even neighbour.
  With \<open>2^e \<le> |x| < 2^(e+1)\<close> the doubles around \<open>x\<close> are the multiples of
  \<open>2^(e-52)\<close>; below \<open>2^-1022\<close> they are the multiples of \<open>2^-1074\<close>, so \<open>e\<close> is
  at least \<open>-1022\<close>. \<open>binade\<close> finds \<open>e\<close> by halving or doubling, and \<open>rne\<close>
  rounds the multiple to an integer.
\<close>

definition rne :: "real \<Rightarrow> int" where
  "rne y =
    (let f = \<lfloor>y\<rfloor>; r = y - of_int f
     in if r < 1 / 2 then f else if 1 / 2 < r then f + 1 else if even f then f else f + 1)"

fun binade_up :: "nat \<Rightarrow> real \<Rightarrow> int" where
  "binade_up 0 x = 0"
| "binade_up (Suc n) x = (if 2 \<le> x then binade_up n (x / 2) + 1 else 0)"

fun binade_down :: "nat \<Rightarrow> real \<Rightarrow> int" where
  "binade_down 0 x = 0"
| "binade_down (Suc n) x = (if x < 1 then binade_down n (2 * x) - 1 else 0)"

definition binade :: "real \<Rightarrow> int" where
  "binade x = (if 1 \<le> \<bar>x\<bar> then binade_up 1023 \<bar>x\<bar> else binade_down 1022 \<bar>x\<bar>)"

definition double_of :: "real \<Rightarrow> real" where
  "double_of x = of_int (rne (x / 2 powi (binade x - 52))) * 2 powi (binade x - 52)"

definition plus_double :: "real \<Rightarrow> real \<Rightarrow> real" where
  "plus_double x y = double_of (x + y)"

definition minus_double :: "real \<Rightarrow> real \<Rightarrow> real" where
  "minus_double x y = double_of (x - y)"

definition times_double :: "real \<Rightarrow> real \<Rightarrow> real" where
  "times_double x y = double_of (x * y)"

subsection \<open>The variables of the script\<close>

text \<open>The object \<open>state\<close> (lines 13 to 19).\<close>

record visual_state =
  running :: bool
  speakerVerified :: bool
  speakerScore :: real
  audioLevel :: real
  vadSpeaking :: bool

text \<open>An entry of the array \<open>planets\<close> (lines 26 to 35); \<open>size\<close> is renamed.\<close>

record planet =
  name :: string
  radius :: real
  speed :: real
  size_planet :: real
  color :: string
  hasRings :: bool
  angle :: real

text \<open>
  The page elements the script writes to, one field for each property it assigns. The
  elements themselves come from the page markup, which is not part of the script.
\<close>

record dom =
  agent_status_textContent :: string
  agent_status_className :: string
  toggle_btn_className :: string
  btn_icon_textContent :: string
  btn_text_textContent :: string
  speaker_badge_className :: string
  badge_icon_textContent :: string
  badge_text_textContent :: string
  score_fill_style_width :: string
  score_value_textContent :: string
  vad_indicator_className :: string
  vad_text_textContent :: string
  connection_status_className :: string
  connection_text_textContent :: string

text \<open>
  The socket in \<open>ws\<close> is represented by its \<open>readyState\<close>; \<open>None\<close> is \<open>null\<close>.
  What the script hands to the host is recorded: console output, frames given to
  \<open>ws.send\<close>, and callbacks given to \<open>setTimeout\<close> with their delay in milliseconds.
\<close>

datatype ready_state = CONNECTING | OPEN | CLOSING | CLOSED

datatype console_entry = Log string | Error string

datatype callback = Connect

record app =
  ws :: "ready_state option"
  state :: visual_state
  planets :: "planet list"
  sunRadius :: real
  targetSunRadius :: real
  sunPulse :: real
  animationSpeed :: real
  page :: dom
  console :: "console_entry list"
  sent :: "string list"
  timers :: "(callback \<times> nat) list"

definition planets_init :: "planet list" where
  "planets_init =
    [\<lparr>name = ''Mercury'', radius = 45, speed = 0.04, size_planet = 3,
      color = ''#b5b5b5'', hasRings = False, angle = 0\<rparr>,
     \<lparr>name = ''Venus'', radius = 65, speed = 0.03, size_planet = 5,
      color = ''#e6c87a'', hasRings = False, angle = pi / 4\<rparr>,
     \<lparr>name = ''Earth'', radius = 85, speed = 0.025, size_planet = 5,
      color = ''#6b93d6'', hasRings = False, angle = pi / 2\<rparr>,
     \<lparr>name = ''Mars'', radius = 105, speed = 0.02, size_planet = 4,
      color = ''#c1440e'', hasRings = False, angle = pi * 0.75\<rparr>,
     \<lparr>name = ''Jupiter'', radius = 130, speed = 0.012, size_planet = 12,
      color = ''#d8ca9d'', hasRings = False, angle = pi\<rparr>,
     \<lparr>name = ''Saturn'', radius = 155, speed = 0.009, size_planet = 10,
      color = ''#f4d59e'', hasRings = True, angle = pi * 1.25\<rparr>,
     \<lparr>name = ''Uranus'', radius = 175, speed = 0.006, size_planet = 7,
      color = ''#d1e7e7'', hasRings = False, angle = pi * 1.5\<rparr>,
     \<lparr>name = ''Neptune'', radius = 192, speed = 0.004, size_planet = 6,
      color = ''#5b5ddf'', hasRings = False, angle = pi * 1.75\<rparr>]"

text \<open>
  The variables as their declarations set them (lines 12 to 42), before any frame is drawn
  and before any callback has run. The page content at that moment is a parameter.
\<close>

definition initial :: "dom \<Rightarrow> app" where
  "initial d =
    \<lparr>ws = None,
     state = \<lparr>running = False, speakerVerified = False, speakerScore = 0,
              audioLevel = - 80, vadSpeaking = False\<rparr>,
     planets = planets_init,
     sunRadius = 18, targetSunRadius = 18, sunPulse = 0, animationSpeed = 1,
     page = d, console = [], sent = [], timers = []\<rparr>"

text \<open>A page in which none of the written properties has a value yet.\<close>

definition empty_page :: dom where
  "empty_page =
    \<lparr>agent_status_textContent = [], agent_status_className = [],
     toggle_btn_className = [], btn_icon_textContent = [], btn_text_textContent = [],
     speaker_badge_className = [], badge_icon_textContent = [],
     badge_text_textContent = [], score_fill_style_width = [],
     score_value_textContent = [], vad_indicator_className = [],
     vad_text_textContent = [], connection_status_className = [],
     connection_text_textContent = []\<rparr>"

subsection \<open>Status display (lines 299 to 378)\<close>

definition updateAgentStatus :: "app \<Rightarrow> app" where
  "updateAgentStatus s =
    (if running (state s)
     then s\<lparr>page := (page s)
            \<lparr>agent_status_textContent := ''Online'',
             agent_status_className := ''status-badge online'',
             toggle_btn_className := ''toggle-btn running'',
             btn_icon_textContent := [CHR 0xE2, CHR 0x8F, CHR 0xB9],
             btn_text_textContent := ''Stop Agent''\<rparr>\<rparr>
     else s\<lparr>page := (page s)
            \<lparr>agent_status_textContent := ''Offline'',
             agent_status_className := ''status-badge offline'',
             toggle_btn_className := ''toggle-btn'',
             btn_icon_textContent := [CHR 0xE2, CHR 0x96, CHR 0xB6],
             btn_text_textContent := ''Start Agent''\<rparr>\<rparr>)"

definition updateSpeakerStatus :: "app \<Rightarrow> app" where
  "updateSpeakerStatus s =
    (let score = speakerScore (state s);
         percent = Math_round (score * 100);
         d = (page s)\<lparr>score_fill_style_width := toString percent @ ''%'',
                      score_value_textContent := toString percent @ ''%''\<rparr>
     in if \<not> running (state s)
        then s\<lparr>page := d
               \<lparr>speaker_badge_className := ''speaker-badge unknown'',
                badge_icon_textContent := [CHR 0xE2, CHR 0x9D, CHR 0x93],
                badge_text_textContent := ''Waiting...''\<rparr>\<rparr>
        else if speakerVerified (state s)
        then s\<lparr>page := d
               \<lparr>speaker_badge_className := ''speaker-badge verified'',
                badge_icon_textContent := [CHR 0xE2, CHR 0x9C, CHR 0x85],
                badge_text_textContent := ''Verified''\<rparr>\<rparr>
        else s\<lparr>page := d
               \<lparr>speaker_badge_className := ''speaker-badge locked'',
                badge_icon_textContent := [CHR 0xF0, CHR 0x9F, CHR 0x94, CHR 0x92],
                badge_text_textContent := ''Locked''\<rparr>\<rparr>)"

definition updateVADStatus :: "app \<Rightarrow> app" where
  "updateVADStatus s =
    (if vadSpeaking (state s)
     then s\<lparr>page := (page s)
            \<lparr>vad_indicator_className := ''vad-indicator speaking'',
             vad_text_textContent := ''Speaking...''\<rparr>\<rparr>
     else s\<lparr>page := (page s)
            \<lparr>vad_indicator_className := ''vad-indicator silent'',
             vad_text_textContent := ''Silent''\<rparr>\<rparr>)"

definition updateUI :: "app \<Rightarrow> app" where
  "updateUI s = updateVADStatus (updateSpeakerStatus (updateAgentStatus s))"

definition updateConnectionStatus :: "bool \<Rightarrow> app \<Rightarrow> app" where
  "updateConnectionStatus connected_arg s =
    (if connected_arg
     then s\<lparr>page := (page s)
            \<lparr>connection_status_className := ''connection-dot connected'',
             connection_text_textContent := ''Connected''\<rparr>\<rparr>
     else s\<lparr>page := (page s)
            \<lparr>connection_status_className := ''connection-dot disconnected'',
             connection_text_textContent := ''Disconnected''\<rparr>\<rparr>)"

subsection \<open>Inbound messages (lines 263 to 295)\<close>

text \<open>
  A parsed message, one constructor for each case of the \<open>switch\<close> on \<open>msg.type\<close>
  carrying the fields that case reads, in the order it reads them. \<open>Other\<close> stands for
  any message whose type matches no case.
\<close>

datatype message =
    State_msg bool bool real bool
  | Status_msg bool
  | Speaker_msg bool real
  | Vad_msg bool
  | Audio_msg real
  | Other string

fun handleMessage :: "message \<Rightarrow> app \<Rightarrow> app" where
  "handleMessage (State_msg r v sc sp) s =
     updateUI (s\<lparr>state := (state s)\<lparr>running := r, speakerVerified := v,
                                      speakerScore := sc, vadSpeaking := sp\<rparr>\<rparr>)"
| "handleMessage (Status_msg r) s =
     updateAgentStatus (s\<lparr>state := (state s)\<lparr>running := r\<rparr>\<rparr>)"
| "handleMessage (Speaker_msg v sc) s =
     updateSpeakerStatus (s\<lparr>state := (state s)\<lparr>speakerVerified := v,
                                                 speakerScore := sc\<rparr>\<rparr>)"
| "handleMessage (Vad_msg sp) s =
     updateVADStatus (s\<lparr>state := (state s)\<lparr>vadSpeaking := sp\<rparr>\<rparr>)"
| "handleMessage (Audio_msg level) s =
     s\<lparr>animationSpeed := max 0.5 (min 3 ((level + 80) / 20)),
       targetSunRadius := 15 + max 0 ((level + 60) / 3)\<rparr>"
| "handleMessage (Other t) s = s"

subsection \<open>The animation frame (lines 44 to 212)\<close>

text \<open>
  Of \<open>drawSolarSystem\<close> the model keeps what it assigns to the variables of the script
  and which colour stops it gives to the gradients of the sun's glow. The drawing calls
  on the canvas, the random star and the request for the next frame assign to none of
  the variables. The new radius of the sun (line 58) is computed in double precision: a
  difference, a product with the double nearest to \<open>0.1\<close>, and a sum, each rounded.
\<close>

definition speedMultiplier :: "app \<Rightarrow> real" where
  "speedMultiplier s =
    (if vadSpeaking (state s) then 3 else (if running (state s) then animationSpeed s else 0.3))"

definition movePlanet :: "app \<Rightarrow> planet \<Rightarrow> planet" where
  "movePlanet s p = p\<lparr>angle := angle p + speed p * speedMultiplier s\<rparr>"

definition drawSolarSystem :: "app \<Rightarrow> app" where
  "drawSolarSystem s =
    (let s1 = s\<lparr>sunRadius :=
                  plus_double (sunRadius s)
                    (times_double (minus_double (targetSunRadius s) (sunRadius s))
                       (double_of 0.1))\<rparr>;
         s2 = s1\<lparr>sunPulse := sunPulse s1 + 0.05\<rparr>
     in s2\<lparr>planets := map (movePlanet s2) (planets s2)\<rparr>)"

text \<open>
  A colour stop is an offset and a colour; \<open>Rgba r g b a\<close> is the text
  \<open>rgba(r, g, b, a)\<close> with the alpha kept as a number. \<open>glowStops s i\<close> are the stops
  that the loop over the glow layers (lines 75 to 106) adds in round \<open>i\<close>.
\<close>

datatype css_color = Rgba nat nat nat real | Transparent

type_synonym color_stop = "real \<times> css_color"

definition glowStops :: "app \<Rightarrow> nat \<Rightarrow> color_stop list" where
  "glowStops s i =
    (if vadSpeaking (state s)
     then [(0, Rgba 255 215 0 (0.3 / real i)), (0.5, Rgba 255 165 0 (0.2 / real i)),
           (1, Transparent)]
     else if speakerVerified (state s)
     then [(0, Rgba 255 230 100 (0.25 / real i)), (0.5, Rgba 100 255 150 (0.15 / real i)),
           (1, Transparent)]
     else if running (state s)
     then [(0, Rgba 255 200 50 (0.2 / real i)), (0.5, Rgba 255 150 0 (0.1 / real i)),
           (1, Transparent)]
     else [(0, Rgba 150 120 50 (0.1 / real i)), (1, Transparent)])"

definition sunGlow :: "app \<Rightarrow> color_stop list list" where
  "sunGlow s = map (glowStops s) [5, 4, 3, 2, 1]"

subsection \<open>Connection and control (lines 238 to 261 and 382 to 393)\<close>

definition setTimeout :: "callback \<Rightarrow> nat \<Rightarrow> app \<Rightarrow> app" where
  "setTimeout f ms s = s\<lparr>timers := timers s @ [(f, ms)]\<rparr>"

definition console_log :: "string \<Rightarrow> app \<Rightarrow> app" where
  "console_log t s = s\<lparr>console := console s @ [Log t]\<rparr>"

definition console_error :: "string \<Rightarrow> app \<Rightarrow> app" where
  "console_error t s = s\<lparr>console := console s @ [Error t]\<rparr>"

definition ws_send :: "string \<Rightarrow> app \<Rightarrow> app" where
  "ws_send frame s = s\<lparr>sent := sent s @ [frame]\<rparr>"

text \<open>
  \<open>connect\<close> stores a new socket, which starts in the connecting state. A console
  line is recorded by its text; the error object that the error handler prints after its
  text is left out.
\<close>

definition connect :: "app \<Rightarrow> app" where
  "connect s = s\<lparr>ws := Some CONNECTING\<rparr>"

definition ws_onopen :: "app \<Rightarrow> app" where
  "ws_onopen s = updateConnectionStatus True (console_log ''WebSocket connected'' s)"

definition ws_onclose :: "app \<Rightarrow> app" where
  "ws_onclose s =
    setTimeout Connect 2000
      (updateConnectionStatus False (console_log ''WebSocket disconnected'' s))"

definition ws_onerror :: "app \<Rightarrow> app" where
  "ws_onerror s = console_error ''WebSocket error:'' s"

definition ws_onmessage :: "message \<Rightarrow> app \<Rightarrow> app" where
  "ws_onmessage msg s = handleMessage msg s"

definition toggleAgent :: "app \<Rightarrow> app" where
  "toggleAgent s =
    (if ws s = None \<or> ws s \<noteq> Some OPEN
     then console_error ''WebSocket not connected'' s
     else if running (state s)
     then ws_send (''{'' @ [CHR 0x22] @ ''type'' @ [CHR 0x22] @ '':''
                   @ [CHR 0x22] @ ''stop'' @ [CHR 0x22] @ ''}'') s
     else ws_send (''{'' @ [CHR 0x22] @ ''type'' @ [CHR 0x22] @ '':''
                   @ [CHR 0x22] @ ''start'' @ [CHR 0x22] @ ''}'') s)"

text \<open>
  The host calls the script back on these occasions. Before it reports that the socket
  has opened or closed it has set the socket's \<open>readyState\<close>; a socket event needs a
  socket, and a timer event takes the oldest pending timer. The script itself draws the
  first frame when it is loaded (line 234); every later frame is a callback.
\<close>

datatype event =
    DOMContentLoaded
  | AnimationFrame
  | WsOpen
  | WsClose
  | WsError
  | WsMessage message
  | ButtonClick
  | TimerFires

fun step :: "event \<Rightarrow> app \<Rightarrow> app" where
  "step DOMContentLoaded s = connect s"
| "step AnimationFrame s = drawSolarSystem s"
| "step WsOpen s = (case ws s of None \<Rightarrow> s | Some _ \<Rightarrow> ws_onopen (s\<lparr>ws := Some OPEN\<rparr>))"
| "step WsClose s = (case ws s of None \<Rightarrow> s | Some _ \<Rightarrow> ws_onclose (s\<lparr>ws := Some CLOSED\<rparr>))"
| "step WsError s = (case ws s of None \<Rightarrow> s | Some _ \<Rightarrow> ws_onerror s)"
| "step (WsMessage msg) s = (case ws s of None \<Rightarrow> s | Some _ \<Rightarrow> ws_onmessage msg s)"
| "step ButtonClick s = toggleAgent s"
| "step TimerFires s =
     (case timers s of [] \<Rightarrow> s | (Connect, ms) # ts \<Rightarrow> connect (s\<lparr>timers := ts\<rparr>))"

fun run :: "event list \<Rightarrow> app \<Rightarrow> app" where
  "run [] s = s"
| "run (e # es) s = run es (step e s)"

definition script_loaded :: "dom \<Rightarrow> app" where
  "script_loaded d = drawSolarSystem (initial d)"

subsection \<open>Colour helpers (lines 215 to 231)\<close>

text \<open>
  \<open>color.replace('#', '')\<close> with a string pattern replaces the first occurrence only.
\<close>

fun replace_first :: "char \<Rightarrow> string \<Rightarrow> string \<Rightarrow> string" where
  "replace_first c r [] = []"
| "replace_first c r (x # xs) = (if x = c then r @ xs else x # replace_first c r xs)"

text \<open>
  \<open>parseInt(str, 16)\<close> skips leading white space (here: the ASCII white space
  characters), takes a sign and an optional \<open>0x\<close>, and reads the longest run of
  hexadecimal digits that follows; with no digit the result is \<open>NaN\<close>, here \<open>None\<close>.
  The value is exact: the rounding of values beyond \<open>2^53\<close> is outside the model.
\<close>

definition isWhiteSpace :: "char \<Rightarrow> bool" where
  "isWhiteSpace c = (c = CHR '' '' \<or> (9 :: nat) \<le> of_char c \<and> (of_char c :: nat) \<le> 13)"

definition hexDigitValue :: "char \<Rightarrow> nat option" where
  "hexDigitValue c =
    (let k = (of_char c :: nat)
     in if 48 \<le> k \<and> k \<le> 57 then Some (k - 48)
        else if 97 \<le> k \<and> k \<le> 102 then Some (k - 87)
        else if 65 \<le> k \<and> k \<le> 70 then Some (k - 55)
        else None)"

fun hexPrefix :: "string \<Rightarrow> nat list" where
  "hexPrefix [] = []"
| "hexPrefix (c # cs) = (case hexDigitValue c of None \<Rightarrow> [] | Some v \<Rightarrow> v # hexPrefix cs)"

definition strip_sign :: "string \<Rightarrow> int \<times> string" where
  "strip_sign t =
    (case t of
       [] \<Rightarrow> (1, [])
     | c # r \<Rightarrow> if c = CHR ''-'' then (- 1, r) else if c = CHR ''+'' then (1, r) else (1, t))"

definition strip_0x :: "string \<Rightarrow> string" where
  "strip_0x u =
    (case u of
       c # d # r \<Rightarrow> if c = CHR ''0'' \<and> (d = CHR ''x'' \<or> d = CHR ''X'') then r else u
     | _ \<Rightarrow> u)"

definition parseInt16 :: "string \<Rightarrow> int option" where
  "parseInt16 str =
    (let (sign, u) = strip_sign (dropWhile isWhiteSpace str);
         ds = hexPrefix (strip_0x u)
     in if ds = [] then None else Some (sign * int (foldl (\<lambda>a v. 16 * a + v) 0 ds)))"

text \<open>
  The bit operators work on the 32-bit two's complement value of their operands, and
  \<open>NaN\<close> counts as 0. On such values \<open>>>\<close> is \<open>drop_bit\<close> and \<open>&\<close> is \<open>AND\<close> on
  \<open>int\<close>.

  The amount \<open>amt\<close> is \<open>Math.round\<close> of the product of the double nearest to
  \<open>2.55\<close> and the percentage, rounded to a double. A channel and the amount are
  integers; their sum or difference is exact in double precision while its magnitude is
  below \<open>2^53\<close>. A larger sum that is positive becomes 255 under \<open>Math.min\<close> and a
  larger difference that is negative becomes 0 under \<open>Math.max\<close>, as the exact values
  do. A sum below \<open>-2^53\<close> and a difference above \<open>2^53\<close>, which need an amount
  below \<open>-2^52\<close>, are outside the model.
\<close>

definition wrap32 :: "int \<Rightarrow> int" where
  "wrap32 n = (n + 2 ^ 31) mod 2 ^ 32 - 2 ^ 31"

definition ToInt32 :: "int option \<Rightarrow> int" where
  "ToInt32 x = (case x of None \<Rightarrow> 0 | Some n \<Rightarrow> wrap32 n)"

definition rgb :: "int \<Rightarrow> int \<Rightarrow> int \<Rightarrow> string" where
  "rgb R G B = ''rgb('' @ toString R @ '', '' @ toString G @ '', '' @ toString B @ '')''"

definition lightenColor :: "string \<Rightarrow> real \<Rightarrow> string" where
  "lightenColor color_arg percent =
    (let num = parseInt16 (replace_first CHR ''#'' [] color_arg);
         amt = Math_round (times_double (double_of 2.55) percent);
         R = min 255 (drop_bit 16 (ToInt32 num) + amt);
         G = min 255 ((wrap32 (drop_bit 8 (ToInt32 num)) AND wrap32 0x00FF) + amt);
         B = min 255 ((ToInt32 num AND wrap32 0x0000FF) + amt)
     in rgb R G B)"

definition darkenColor :: "string \<Rightarrow> real \<Rightarrow> string" where
  "darkenColor color_arg percent =
    (let num = parseInt16 (replace_first CHR ''#'' [] color_arg);
         amt = Math_round (times_double (double_of 2.55) percent);
         R = max 0 (drop_bit 16 (ToInt32 num) - amt);
         G = max 0 ((wrap32 (drop_bit 8 (ToInt32 num)) AND wrap32 0x00FF) - amt);
         B = max 0 ((ToInt32 num AND wrap32 0x0000FF) - amt)
     in rgb R G B)"

subsection \<open>Notions used to state the properties\<close>

text \<open>The clamp of the specification, written as a case distinction.\<close>

definition clamp :: "real \<Rightarrow> real \<Rightarrow> real \<Rightarrow> real" where
  "clamp x lo hi = (if x < lo then lo else if hi < x then hi else x)"

text \<open>
  The four colour ramps of the sun's glow, named as the specification names them, each
  with the stops that its branch in the frame adds; and the choice among them by
  priority: the first ramp in the order speaking, verified, running, idle whose flag is
  set, the idle ramp needing none.
\<close>

datatype glow_tier = Speaking | Verified | Running | Idle

fun tier_ramp :: "glow_tier \<Rightarrow> nat \<Rightarrow> color_stop list" where
  "tier_ramp Speaking i =
     [(0, Rgba 255 215 0 (0.3 / real i)), (0.5, Rgba 255 165 0 (0.2 / real i)),
      (1, Transparent)]"
| "tier_ramp Verified i =
     [(0, Rgba 255 230 100 (0.25 / real i)), (0.5, Rgba 100 255 150 (0.15 / real i)),
      (1, Transparent)]"
| "tier_ramp Running i =
     [(0, Rgba 255 200 50 (0.2 / real i)), (0.5, Rgba 255 150 0 (0.1 / real i)),
      (1, Transparent)]"
| "tier_ramp Idle i = [(0, Rgba 150 120 50 (0.1 / real i)), (1, Transparent)]"

fun tier_flag :: "visual_state \<Rightarrow> glow_tier \<Rightarrow> bool" where
  "tier_flag st Speaking = vadSpeaking st"
| "tier_flag st Verified = speakerVerified st"
| "tier_flag st Running = running st"
| "tier_flag st Idle = True"

definition priority_tier :: "visual_state \<Rightarrow> glow_tier" where
  "priority_tier st =
    (case find (tier_flag st) [Speaking, Verified, Running, Idle] of
       Some t \<Rightarrow> t
     | None \<Rightarrow> Idle)"

text \<open>
  Two conditions under which no frame turns a planet backwards: the speed set by audio
  events and the angular speeds of the planets are not negative.
\<close>

definition speeds_ok :: "app \<Rightarrow> bool" where
  "speeds_ok s = (0 \<le> animationSpeed s \<and> list_all (\<lambda>p. 0 \<le> speed p) (planets s))"

text \<open>\<open>later p q\<close>: \<open>q\<close> is the planet \<open>p\<close> at an angle that is not smaller.\<close>

definition later :: "planet \<Rightarrow> planet \<Rightarrow> bool" where
  "later p q = (name q = name p \<and> angle p \<le> angle q)"

text \<open>One failed attempt: the socket closes and the timer set by the close handler fires.\<close>

definition close_and_retry :: "app \<Rightarrow> app" where
  "close_and_retry s = step TimerFires (step WsClose s)"

text \<open>
  A 24-bit hex colour is \<open>#\<close> followed by six hexadecimal digits; two digits give a
  channel.
\<close>

definition hex_digit :: "char \<Rightarrow> bool" where
  "hex_digit c = (hexDigitValue c \<noteq> None)"

definition channel_of :: "char \<Rightarrow> char \<Rightarrow> int" where
  "channel_of a b =
    (case (hexDigitValue a, hexDigitValue b) of
       (Some h, Some l) \<Rightarrow> int (16 * h + l)
     | _ \<Rightarrow> 0)"

text \<open>The amount that both colour helpers compute from the percentage.\<close>

definition blend_amount :: "real \<Rightarrow> int" where
  "blend_amount percent = Math_round (times_double (double_of 2.55) percent)"

section \<open>Properties\<close>

text \<open>
  C1. For every audio event with level \<open>L\<close> the message handler sets the animation
  speed multiplier to \<open>clamp((L+80)/20, 0.5, 3)\<close> and the target sun radius to
  \<open>15 + max(0, (L+60)/3)\<close>, and changes nothing else. Level \<open>-80\<close> gives multiplier
  \<open>0.5\<close>, level \<open>0\<close> gives \<open>3\<close>, level \<open>-60\<close> gives \<open>1\<close>; the target radius is \<open>15\<close>
  at level \<open>-60\<close>, \<open>35\<close> at level \<open>0\<close> and \<open>15\<close> at level \<open>-90\<close>.
\<close>

theorem audio_event_sets_speed_and_radius:
  "handleMessage (Audio_msg L) s =
     s\<lparr>animationSpeed := clamp ((L + 80) / 20) 0.5 3,
       targetSunRadius := 15 + max 0 ((L + 60) / 3)\<rparr>
   \<and> animationSpeed (handleMessage (Audio_msg (- 80)) s) = 0.5
   \<and> animationSpeed (handleMessage (Audio_msg 0) s) = 3
   \<and> animationSpeed (handleMessage (Audio_msg (- 60)) s) = 1
   \<and> targetSunRadius (handleMessage (Audio_msg (- 60)) s) = 15
   \<and> targetSunRadius (handleMessage (Audio_msg 0) s) = 35
   \<and> targetSunRadius (handleMessage (Audio_msg (- 90)) s) = 15"
proof -
  have "max 0.5 (min 3 ((L + 80) / 20)) = clamp ((L + 80) / 20) 0.5 3"
    by (simp add: clamp_def max_def min_def)
  then show ?thesis by simp
qed

subsection \<open>Rounding to a double\<close>

lemma rne_error: "\<bar>of_int (rne y) - y\<bar> \<le> 1 / 2"
  unfolding rne_def Let_def by (auto; linarith)

lemma binade_up_le: "1 \<le> x \<Longrightarrow> 2 powi (binade_up n x) \<le> x"
proof (induction n arbitrary: x)
  case 0
  then show ?case by simp
next
  case (Suc n)
  show ?case
  proof (cases "2 \<le> x")
    case True
    then have "2 powi (binade_up n (x / 2)) \<le> x / 2"
      by (intro Suc.IH) simp
    then show ?thesis
      using True by (simp add: power_int_add)
  next
    case False
    then show ?thesis using Suc.prems by simp
  qed
qed

lemma binade_down_ge_1: "1 \<le> x \<Longrightarrow> binade_down n x = 0"
  by (cases n) simp_all

lemma binade_down_le:
  "0 \<le> x \<Longrightarrow> x < 1 \<Longrightarrow> 2 powi (binade_down n x) \<le> x \<or> binade_down n x = - int n"
proof (induction n arbitrary: x)
  case 0
  then show ?case by simp
next
  case (Suc n)
  show ?case
  proof (cases "2 * x < 1")
    case True
    with Suc.IH [of "2 * x"] Suc.prems
    have "2 powi (binade_down n (2 * x)) \<le> 2 * x \<or> binade_down n (2 * x) = - int n"
      by simp
    then show ?thesis
      using Suc.prems by (auto simp: power_int_diff)
  next
    case False
    then have "binade_down n (2 * x) = 0"
      by (intro binade_down_ge_1) simp
    then show ?thesis
      using Suc.prems False by (simp add: power_int_minus)
  qed
qed

lemma binade_le: "2 powi (binade x) \<le> \<bar>x\<bar> \<or> binade x = - 1022"
proof (cases "1 \<le> \<bar>x\<bar>")
  case True
  then show ?thesis
    by (simp add: binade_def binade_up_le)
next
  case False
  then show ?thesis
    using binade_down_le [of "\<bar>x\<bar>" 1022] by (simp add: binade_def)
qed

lemma double_of_error: "\<bar>double_of x - x\<bar> \<le> \<bar>x\<bar> / 2 ^ 53 + 1 / 2 ^ 1075"
proof -
  define q :: real where "q = 2 powi (binade x - 52)"
  have q: "0 < q"
    by (simp add: q_def)
  have "double_of x - x = q * (of_int (rne (x / q)) - x / q)"
    using q by (simp add: double_of_def q_def field_simps)
  then have "\<bar>double_of x - x\<bar> = q * \<bar>of_int (rne (x / q)) - x / q\<bar>"
    using q by (simp add: abs_mult)
  also have "\<dots> \<le> q * (1 / 2)"
    using q rne_error [of "x / q"] by (intro mult_left_mono) simp_all
  finally have half: "\<bar>double_of x - x\<bar> \<le> q / 2"
    by simp
  have "q / 2 \<le> \<bar>x\<bar> / 2 ^ 53 + 1 / 2 ^ 1075"
    using binade_le [of x]
  proof
    assume "2 powi binade x \<le> \<bar>x\<bar>"
    moreover have "q / 2 = 2 powi binade x / 2 ^ 53"
      by (simp add: q_def power_int_diff)
    ultimately show ?thesis
      by (simp add: divide_right_mono add_increasing2)
  next
    assume "binade x = - 1022"
    then have "q / 2 = 1 / 2 ^ 1075"
      by (simp add: q_def power_int_minus)
    then show ?thesis
      by simp
  qed
  with half show ?thesis
    by linarith
qed

lemma binade_up_eq:
  "2 powi k \<le> x \<Longrightarrow> x < 2 powi (k + 1) \<Longrightarrow> 0 \<le> k \<Longrightarrow> k \<le> int n \<Longrightarrow> binade_up n x = k"
proof (induction n arbitrary: x k)
  case 0
  then show ?case by simp
next
  case (Suc n)
  show ?case
  proof (cases "2 \<le> x")
    case True
    have "k \<noteq> 0"
      using True Suc.prems(2) by auto
    with Suc.prems have k: "1 \<le> k"
      by simp
    have "binade_up n (x / 2) = k - 1"
      using Suc.prems k by (intro Suc.IH) (simp_all add: power_int_diff power_int_add)
    then show ?thesis
      using True by simp
  next
    case False
    have "k < 1"
    proof (rule ccontr)
      assume "\<not> k < 1"
      then have "(2 :: real) powi 1 \<le> 2 powi k"
        by (intro power_int_increasing) simp_all
      with Suc.prems(1) False show False
        by simp
    qed
    with Suc.prems False show ?thesis
      by simp
  qed
qed

lemma binade_down_eq:
  "2 powi k \<le> x \<Longrightarrow> x < 2 powi (k + 1) \<Longrightarrow> k < 0 \<Longrightarrow> - int n \<le> k \<Longrightarrow> binade_down n x = k"
proof (induction n arbitrary: x k)
  case 0
  then show ?case by simp
next
  case (Suc n)
  have "(2 :: real) powi (k + 1) \<le> 2 powi 0"
    using Suc.prems(3) by (intro power_int_increasing) simp_all
  with Suc.prems(2) have x: "x < 1"
    by simp
  show ?case
  proof (cases "k = - 1")
    case True
    with Suc.prems have "1 \<le> 2 * x"
      by (simp add: power_int_minus)
    then have "binade_down n (2 * x) = 0"
      by (rule binade_down_ge_1)
    with x True show ?thesis
      by simp
  next
    case False
    have "binade_down n (2 * x) = k + 1"
      using Suc.prems False by (intro Suc.IH) (simp_all add: power_int_add)
    with x show ?thesis
      by simp
  qed
qed

lemma binade_eq:
  assumes "2 powi k \<le> \<bar>x\<bar>" and "\<bar>x\<bar> < 2 powi (k + 1)" and "- 1022 \<le> k" and "k \<le> 1023"
  shows "binade x = k"
proof (cases "0 \<le> k")
  case True
  then have "(2 :: real) powi 0 \<le> 2 powi k"
    by (intro power_int_increasing) simp_all
  with assms(1) have "1 \<le> \<bar>x\<bar>"
    by simp
  then show ?thesis
    using assms True by (simp add: binade_def binade_up_eq)
next
  case False
  then have "(2 :: real) powi (k + 1) \<le> 2 powi 0"
    by (intro power_int_increasing) simp_all
  with assms(2) have "\<not> 1 \<le> \<bar>x\<bar>"
    by simp
  then show ?thesis
    using assms False by (simp add: binade_def binade_down_eq)
qed

lemma double_of_eval:
  assumes "2 powi k \<le> \<bar>x\<bar>" and "\<bar>x\<bar> < 2 powi (k + 1)" and "- 1022 \<le> k" and "k \<le> 1023"
  shows "double_of x = of_int (rne (x / 2 powi (k - 52))) * 2 powi (k - 52)"
  by (simp add: double_of_def binade_eq [OF assms])

lemma double_of_tenth: "double_of 0.1 = 3602879701896397 / 2 ^ 55"
  by (subst double_of_eval [where k = "- 4"]) (simp_all add: power_int_minus rne_def Let_def)

subsection \<open>The sun's radius over consecutive frames\<close>

lemma target_kept_by_frame: "targetSunRadius (drawSolarSystem s) = targetSunRadius s"
  by (simp add: drawSolarSystem_def Let_def)

lemma target_kept_by_frames: "targetSunRadius ((drawSolarSystem ^^ n) s) = targetSunRadius s"
  by (induction n) (simp_all add: target_kept_by_frame)

lemma run_frames: "run (replicate n AnimationFrame) s = (drawSolarSystem ^^ n) s"
  by (induction n arbitrary: s) (simp_all add: funpow_swap1)

lemma sunRadius_frame:
  "sunRadius (drawSolarSystem s)
     = plus_double (sunRadius s)
         (times_double (minus_double (targetSunRadius s) (sunRadius s)) (double_of 0.1))"
  by (simp add: drawSolarSystem_def Let_def)

text \<open>
  One frame with rounding errors \<open>d1\<close>, \<open>p\<close> and \<open>R'\<close> of relative size at most \<open>u\<close>
  and absolute size at most \<open>h\<close>: the distance to the target shrinks by nine tenths up
  to these errors.
\<close>

lemma step_bound:
  fixes u h c T R d1 p R' :: real
  assumes u: "0 \<le> u" "u \<le> 1 / 4" and h: "0 \<le> h" and c: "1 / 10 \<le> c" "c \<le> 1 / 8"
    and e1: "\<bar>d1 - (T - R)\<bar> \<le> u * \<bar>T - R\<bar> + h"
    and e2: "\<bar>p - d1 * c\<bar> \<le> u * \<bar>d1 * c\<bar> + h"
    and e3: "\<bar>R' - (R + p)\<bar> \<le> u * \<bar>R + p\<bar> + h"
  shows "\<bar>T - R'\<bar> \<le> (9 / 10 + 3 * u) * \<bar>T - R\<bar> + u * \<bar>T\<bar> + 5 * h"
proof -
  define g where "g = \<bar>T - R\<bar>"
  have g: "0 \<le> g" by (simp add: g_def)
  have ug: "0 \<le> u * g" "u * g \<le> g / 4"
    using u g by (simp_all add: mult_right_mono [of u "1 / 4" g, simplified])
  have uh: "0 \<le> u * h" "u * h \<le> h / 4"
    using u h by (simp_all add: mult_right_mono [of u "1 / 4" h, simplified])
  have uT: "0 \<le> u * \<bar>T\<bar>"
    using u by simp
  have e1': "\<bar>d1 - (T - R)\<bar> \<le> u * g + h"
    using e1 by (simp add: g_def)
  have d1: "\<bar>d1\<bar> \<le> 5 / 4 * g + h"
    using e1' ug g_def by linarith
  have "\<bar>d1 * c\<bar> = \<bar>d1\<bar> * c"
    using c by (simp add: abs_mult)
  also have "\<dots> \<le> \<bar>d1\<bar> * (1 / 8)"
    using c by (intro mult_left_mono) simp_all
  finally have p0: "\<bar>d1 * c\<bar> \<le> 5 / 32 * g + h / 8"
    using d1 by linarith
  have "u * \<bar>d1 * c\<bar> \<le> u * (5 / 32 * g + h / 8)"
    using p0 u by (intro mult_left_mono) simp_all
  also have "\<dots> = 5 / 32 * (u * g) + (u * h) / 8"
    by (simp add: algebra_simps)
  finally have e2': "\<bar>p - d1 * c\<bar> \<le> 5 / 32 * (u * g) + 33 / 32 * h"
    using e2 uh by linarith
  have pabs: "\<bar>p\<bar> \<le> g / 4 + 2 * h"
    using p0 e2' ug h by linarith
  have s0: "\<bar>R + p\<bar> \<le> \<bar>T\<bar> + 5 / 4 * g + 2 * h"
    using pabs g_def by linarith
  have "u * \<bar>R + p\<bar> \<le> u * (\<bar>T\<bar> + 5 / 4 * g + 2 * h)"
    using s0 u by (intro mult_left_mono) simp_all
  also have "\<dots> = u * \<bar>T\<bar> + 5 / 4 * (u * g) + 2 * (u * h)"
    by (simp add: algebra_simps)
  finally have e3': "\<bar>R' - (R + p)\<bar> \<le> u * \<bar>T\<bar> + 5 / 4 * (u * g) + 3 / 2 * h"
    using e3 uh by linarith
  have "c * \<bar>d1 - (T - R)\<bar> \<le> 1 / 8 * \<bar>d1 - (T - R)\<bar>"
    using c by (intro mult_right_mono) simp_all
  also have "\<dots> \<le> 1 / 8 * (u * g + h)"
    using e1' by (intro mult_left_mono) simp_all
  finally have ce1: "c * \<bar>d1 - (T - R)\<bar> \<le> (u * g) / 8 + h / 8"
    by simp
  have "(1 - c) * g \<le> 9 / 10 * g"
    using c g by (intro mult_right_mono) simp_all
  moreover have "0 \<le> 1 - c"
    using c by simp
  ultimately have main: "\<bar>(1 - c) * (T - R)\<bar> \<le> 9 / 10 * g"
    by (simp add: abs_mult g_def)
  have "T - R' = (1 - c) * (T - R) - c * (d1 - (T - R)) - (p - d1 * c) - (R' - (R + p))"
    by (simp add: algebra_simps)
  then have "\<bar>T - R'\<bar> \<le> \<bar>(1 - c) * (T - R)\<bar> + \<bar>c * (d1 - (T - R))\<bar>
                 + \<bar>p - d1 * c\<bar> + \<bar>R' - (R + p)\<bar>"
    by linarith
  moreover have "\<bar>c * (d1 - (T - R))\<bar> = c * \<bar>d1 - (T - R)\<bar>"
    using c by (simp add: abs_mult)
  ultimately have "\<bar>T - R'\<bar> \<le> 9 / 10 * g + ((u * g) / 8 + h / 8)
                 + (5 / 32 * (u * g) + 33 / 32 * h) + (u * \<bar>T\<bar> + 5 / 4 * (u * g) + 3 / 2 * h)"
    using main ce1 e2' e3' by linarith
  also have "\<dots> \<le> 9 / 10 * g + 3 * (u * g) + u * \<bar>T\<bar> + 5 * h"
    using ug h by linarith
  also have "\<dots> = (9 / 10 + 3 * u) * g + u * \<bar>T\<bar> + 5 * h"
    by (simp add: algebra_simps)
  finally show ?thesis
    by (simp add: g_def)
qed

lemma frame_gap:
  "\<bar>targetSunRadius s - sunRadius (drawSolarSystem s)\<bar>
     \<le> (9 / 10 + 3 / 2 ^ 53) * \<bar>targetSunRadius s - sunRadius s\<bar>
       + \<bar>targetSunRadius s\<bar> / 2 ^ 53 + 5 / 2 ^ 1075"
proof -
  define T where "T = targetSunRadius s"
  define R where "R = sunRadius s"
  define c :: real where "c = double_of 0.1"
  define d1 where "d1 = minus_double T R"
  define p where "p = times_double d1 c"
  define R' where "R' = plus_double R p"
  have c: "1 / 10 \<le> c" "c \<le> 1 / 8"
    by (simp_all add: c_def double_of_tenth)
  have e1: "\<bar>d1 - (T - R)\<bar> \<le> 1 / 2 ^ 53 * \<bar>T - R\<bar> + 1 / 2 ^ 1075"
    using double_of_error [of "T - R"] by (simp add: d1_def minus_double_def)
  have e2: "\<bar>p - d1 * c\<bar> \<le> 1 / 2 ^ 53 * \<bar>d1 * c\<bar> + 1 / 2 ^ 1075"
    using double_of_error [of "d1 * c"] by (simp add: p_def times_double_def)
  have e3: "\<bar>R' - (R + p)\<bar> \<le> 1 / 2 ^ 53 * \<bar>R + p\<bar> + 1 / 2 ^ 1075"
    using double_of_error [of "R + p"] by (simp add: R'_def plus_double_def)
  have "\<bar>T - R'\<bar>
          \<le> (9 / 10 + 3 * (1 / 2 ^ 53)) * \<bar>T - R\<bar> + 1 / 2 ^ 53 * \<bar>T\<bar> + 5 * (1 / 2 ^ 1075)"
    by (rule step_bound [OF _ _ _ c e1 e2 e3]) simp_all
  moreover have "sunRadius (drawSolarSystem s) = R'"
    by (simp only: sunRadius_frame R'_def p_def d1_def c_def T_def R_def)
  ultimately show ?thesis
    by (simp add: T_def R_def)
qed

lemma frames_gap:
  "\<bar>targetSunRadius s - sunRadius ((drawSolarSystem ^^ n) s)\<bar>
     \<le> (9 / 10 + 3 / 2 ^ 53) ^ n * \<bar>targetSunRadius s - sunRadius s\<bar>
       + real n * (\<bar>targetSunRadius s\<bar> / 2 ^ 53 + 5 / 2 ^ 1075)"
proof (induction n)
  case 0
  show ?case by simp
next
  case (Suc n)
  define a :: real where "a = 9 / 10 + 3 / 2 ^ 53"
  define b :: real where "b = \<bar>targetSunRadius s\<bar> / 2 ^ 53 + 5 / 2 ^ 1075"
  define g0 where "g0 = \<bar>targetSunRadius s - sunRadius s\<bar>"
  define g where "g = \<bar>targetSunRadius s - sunRadius ((drawSolarSystem ^^ n) s)\<bar>"
  have a: "0 \<le> a" "a \<le> 1"
    by (simp_all add: a_def)
  have b: "0 \<le> b"
    by (simp add: b_def)
  have nb: "a * (real n * b) \<le> real n * b"
    using a b by (intro mult_left_le_one_le) simp_all
  have "\<bar>targetSunRadius s - sunRadius ((drawSolarSystem ^^ Suc n) s)\<bar> \<le> a * g + b"
    using frame_gap [of "(drawSolarSystem ^^ n) s"]
    by (simp add: a_def b_def g_def target_kept_by_frames)
  also have "a * g \<le> a * (a ^ n * g0 + real n * b)"
    using Suc.IH a by (intro mult_left_mono) (simp_all add: a_def b_def g_def g0_def)
  also have "a * (a ^ n * g0 + real n * b) + b \<le> a ^ Suc n * g0 + real (Suc n) * b"
    using nb by (simp add: algebra_simps)
  finally show ?case
    by (simp add: a_def b_def g0_def)
qed

lemma thirty_frames_factor: "(9 / 10 + 3 / 2 ^ 53 :: real) ^ 30 \<le> 44 / 1000"
proof -
  have "(9 / 10 + 3 / 2 ^ 53 :: real) \<le> 901 / 1000"
    by simp
  then have "(9 / 10 + 3 / 2 ^ 53 :: real) ^ 30 \<le> (901 / 1000) ^ 30"
    by (intro power_mono) simp_all
  also have "\<dots> \<le> 44 / 1000"
    by (simp add: power_divide)
  finally show ?thesis .
qed

lemma thirty_frames_gap:
  assumes scale: "\<bar>targetSunRadius s\<bar> \<le> 2 ^ 40 * \<bar>targetSunRadius s - sunRadius s\<bar>"
    and big: "1 / 2 ^ 900 \<le> \<bar>targetSunRadius s - sunRadius s\<bar>"
  shows "\<bar>targetSunRadius s - sunRadius ((drawSolarSystem ^^ 30) s)\<bar>
           < 5 / 100 * \<bar>targetSunRadius s - sunRadius s\<bar>"
proof -
  define g where "g = \<bar>targetSunRadius s - sunRadius s\<bar>"
  define G where "G = \<bar>targetSunRadius s - sunRadius ((drawSolarSystem ^^ 30) s)\<bar>"
  have g: "0 < g"
  proof -
    have "(0 :: real) < 1 / 2 ^ 900"
      by simp
    from this big show ?thesis
      unfolding g_def by (rule less_le_trans)
  qed
  have "\<bar>targetSunRadius s\<bar> / 2 ^ 53 \<le> (2 ^ 40 * g) / 2 ^ 53"
    using scale by (intro divide_right_mono) (simp_all add: g_def)
  then have t1: "\<bar>targetSunRadius s\<bar> / 2 ^ 53 \<le> g / 2 ^ 13"
    by simp
  have "(1 / 2 ^ 900) / 2 ^ 175 \<le> g / 2 ^ 175"
    using big by (intro divide_right_mono) (simp_all add: g_def)
  then have t2: "5 / 2 ^ 1075 \<le> g / 2 ^ 20"
    using g by simp
  define A :: real where "A = (9 / 10 + 3 / 2 ^ 53) ^ 30"
  define x where "x = \<bar>targetSunRadius s\<bar> / 2 ^ 53"
  define y :: real where "y = 5 / 2 ^ 1075"
  define z where "z = g / 2 ^ 13"
  define w where "w = g / 2 ^ 20"
  have "A * g \<le> 44 / 1000 * g"
    using thirty_frames_factor g unfolding A_def by (intro mult_right_mono) simp_all
  moreover have "G \<le> A * g + 30 * (x + y)"
    using frames_gap [of s 30] by (simp add: g_def G_def A_def x_def y_def)
  moreover have "x \<le> z" "y \<le> w"
    using t1 t2 by (simp_all only: x_def y_def z_def w_def)
  ultimately have "G \<le> 44 / 1000 * g + 30 * (z + w)"
    by (meson add_mono mult_left_mono order_trans zero_le_numeral)
  also have "\<dots> = 44 / 1000 * g + 30 * (g / 2 ^ 13 + g / 2 ^ 20)"
    by (simp only: z_def w_def)
  also have "\<dots> < 5 / 100 * g"
    using g by simp
  finally show ?thesis
    by (simp add: g_def G_def)
qed

text \<open>A radius of \<open>35 - 2^-45\<close> under the target 35 is not moved by a frame.\<close>

lemma double_of_stall_difference: "double_of (1 / 2 ^ 45) = 1 / 2 ^ 45"
  by (subst double_of_eval [where k = "- 45"]) (simp_all add: power_int_minus rne_def Let_def)

lemma double_of_stall_product:
  "double_of (3602879701896397 / 2 ^ 100) = 3602879701896397 / 2 ^ 100"
  by (subst double_of_eval [where k = "- 49"]) (simp_all add: power_int_minus rne_def Let_def)

lemma double_of_stall_sum:
  "double_of (35 - 1 / 2 ^ 45 + 3602879701896397 / 2 ^ 100) = 35 - 1 / 2 ^ 45"
  by (subst double_of_eval [where k = 5]) (simp_all add: power_int_minus rne_def Let_def)

lemma frame_stalls:
  assumes "targetSunRadius s = 35" and "sunRadius s = 35 - 1 / 2 ^ 45"
  shows "sunRadius (drawSolarSystem s) = 35 - 1 / 2 ^ 45"
proof -
  have "35 - (35 - 1 / 2 ^ 45) = (1 / 2 ^ 45 :: real)"
    by simp
  then have m: "minus_double 35 (35 - 1 / 2 ^ 45) = 1 / 2 ^ 45"
    by (simp only: minus_double_def double_of_stall_difference)
  have "1 / 2 ^ 45 * (3602879701896397 / 2 ^ 55) = (3602879701896397 / 2 ^ 100 :: real)"
    by simp
  then have t: "times_double (1 / 2 ^ 45) (3602879701896397 / 2 ^ 55)
                  = 3602879701896397 / 2 ^ 100"
    by (simp only: times_double_def double_of_stall_product)
  show ?thesis
    by (simp only: sunRadius_frame assms m double_of_tenth t plus_double_def
          double_of_stall_sum)
qed

lemma frames_stall:
  assumes "targetSunRadius s = 35" and "sunRadius s = 35 - 1 / 2 ^ 45"
  shows "sunRadius ((drawSolarSystem ^^ n) s) = 35 - 1 / 2 ^ 45"
proof (induction n)
  case 0
  show ?case using assms by simp
next
  case (Suc n)
  have "targetSunRadius ((drawSolarSystem ^^ n) s) = 35"
    using assms by (simp add: target_kept_by_frames)
  from frame_stalls [OF this Suc.IH] show ?case
    by simp
qed

text \<open>
  C2, as the specification states it: the frame sets \<open>currentGlowRadius\<close> to
  \<open>currentGlowRadius + (targetGlowRadius - currentGlowRadius) * 0.1\<close>, and for every
  constant target \<open>T\<close> and every start \<open>R0\<close> the radius after 30 consecutive frames
  differs from \<open>T\<close> by less than 5 percent of \<open>|T - R0|\<close>. In double precision a
  radius of \<open>35 - 2^-45\<close> under the target 35 is left where it is: a tenth of the
  difference is less than half the distance to the next double. After 30 frames the
  radius is the same, and the difference to the target is all of \<open>|T - R0|\<close>.
\<close>

theorem sun_radius_stalled_counterexample:
  "targetSunRadius ((initial empty_page)\<lparr>sunRadius := 35 - 1 / 2 ^ 45, targetSunRadius := 35\<rparr>)
     = 35
   \<and> sunRadius ((drawSolarSystem ^^ 30)
         ((initial empty_page)\<lparr>sunRadius := 35 - 1 / 2 ^ 45, targetSunRadius := 35\<rparr>))
       = 35 - 1 / 2 ^ 45
   \<and> \<not> \<bar>sunRadius ((drawSolarSystem ^^ 30)
             ((initial empty_page)\<lparr>sunRadius := 35 - 1 / 2 ^ 45, targetSunRadius := 35\<rparr>))
           - 35\<bar>
         < 0.05 * \<bar>35 - (35 - 1 / 2 ^ 45)\<bar>"
proof -
  let ?s = "(initial empty_page)\<lparr>sunRadius := 35 - 1 / 2 ^ 45, targetSunRadius := 35\<rparr>"
  have t: "targetSunRadius ?s = 35" and r: "sunRadius ?s = 35 - 1 / 2 ^ 45"
    by simp_all
  have "sunRadius ((drawSolarSystem ^^ 30) ?s) = 35 - 1 / 2 ^ 45"
    using t r by (rule frames_stall)
  with t show ?thesis
    by simp
qed

text \<open>
  C2, amended: the frame sets the radius to
  \<open>radius + (target - radius) * 0.1\<close>, each of the three operations rounded to a
  double, and leaves the target alone. For every constant target \<open>T\<close> and start \<open>R0\<close>
  of magnitude at most \<open>2^1000\<close> whose distance \<open>|T - R0|\<close> is at least \<open>2^-40 |T|\<close>
  and at least \<open>2^-900\<close>, the radius after 30 consecutive frames differs from \<open>T\<close> by
  less than 5 percent of \<open>|T - R0|\<close>.
\<close>

theorem sun_radius_smoothing:
  "sunRadius (drawSolarSystem s)
     = plus_double (sunRadius s)
         (times_double (minus_double (targetSunRadius s) (sunRadius s)) (double_of 0.1))
   \<and> targetSunRadius ((drawSolarSystem ^^ 30) s) = targetSunRadius s
   \<and> (\<bar>targetSunRadius s\<bar> \<le> 2 ^ 1000 \<and> \<bar>sunRadius s\<bar> \<le> 2 ^ 1000
        \<and> \<bar>targetSunRadius s\<bar> \<le> 2 ^ 40 * \<bar>targetSunRadius s - sunRadius s\<bar>
        \<and> 1 / 2 ^ 900 \<le> \<bar>targetSunRadius s - sunRadius s\<bar> \<longrightarrow>
        \<bar>sunRadius ((drawSolarSystem ^^ 30) s) - targetSunRadius s\<bar>
          < 0.05 * \<bar>targetSunRadius s - sunRadius s\<bar>)"
proof -
  have "\<bar>sunRadius ((drawSolarSystem ^^ 30) s) - targetSunRadius s\<bar>
          < 0.05 * \<bar>targetSunRadius s - sunRadius s\<bar>"
    if "\<bar>targetSunRadius s\<bar> \<le> 2 ^ 40 * \<bar>targetSunRadius s - sunRadius s\<bar>"
      and "1 / 2 ^ 900 \<le> \<bar>targetSunRadius s - sunRadius s\<bar>"
    using thirty_frames_gap [OF that] by (simp add: abs_minus_commute)
  then show ?thesis
    using sunRadius_frame [of s] target_kept_by_frames [of 30 s] by blast
qed

theorem sun_radius_smoothing_witness:
  "targetSunRadius (handleMessage (Audio_msg 0) (initial empty_page)) = 35
   \<and> sunRadius (handleMessage (Audio_msg 0) (initial empty_page)) = 18
   \<and> \<bar>35 :: real\<bar> \<le> 2 ^ 1000 \<and> \<bar>18 :: real\<bar> \<le> 2 ^ 1000
   \<and> \<bar>35 :: real\<bar> \<le> 2 ^ 40 * \<bar>35 - 18\<bar> \<and> 1 / 2 ^ 900 \<le> \<bar>35 - 18 :: real\<bar>
   \<and> \<bar>sunRadius ((drawSolarSystem ^^ 30)
         (handleMessage (Audio_msg 0) (initial empty_page))) - 35\<bar>
       < 0.05 * \<bar>35 - 18\<bar>"
proof -
  let ?s = "handleMessage (Audio_msg 0) (initial empty_page)"
  have t: "targetSunRadius ?s = 35" and r: "sunRadius ?s = 18"
    by (simp_all add: initial_def)
  have h: "\<bar>35 :: real\<bar> \<le> 2 ^ 1000" "\<bar>18 :: real\<bar> \<le> 2 ^ 1000"
    "\<bar>35 :: real\<bar> \<le> 2 ^ 40 * \<bar>35 - 18\<bar>" "1 / 2 ^ 900 \<le> \<bar>35 - 18 :: real\<bar>"
    by simp_all
  from sun_radius_smoothing [of ?s] h
  have "\<bar>sunRadius ((drawSolarSystem ^^ 30) ?s) - 35\<bar> < 0.05 * \<bar>35 - 18\<bar>"
    unfolding t r by blast
  with t r h show ?thesis
    by blast
qed

subsection \<open>Where the planets change\<close>

lemma planets_handleMessage: "planets (handleMessage msg s) = planets s"
  by (cases msg)
     (simp_all add: updateUI_def updateAgentStatus_def updateSpeakerStatus_def
        updateVADStatus_def Let_def)

lemma planets_toggleAgent: "planets (toggleAgent s) = planets s"
  by (simp add: toggleAgent_def console_error_def ws_send_def)

lemma planets_connect: "planets (connect s) = planets s"
  by (simp add: connect_def)

lemma planets_ws_onopen: "planets (ws_onopen s) = planets s"
  by (simp add: ws_onopen_def updateConnectionStatus_def console_log_def)

lemma planets_ws_onclose: "planets (ws_onclose s) = planets s"
  by (simp add: ws_onclose_def updateConnectionStatus_def console_log_def setTimeout_def)

lemma planets_ws_onerror: "planets (ws_onerror s) = planets s"
  by (simp add: ws_onerror_def console_error_def)

lemma planets_drawSolarSystem:
  "planets (drawSolarSystem s)
     = map (\<lambda>p. p\<lparr>angle := angle p + speed p * speedMultiplier s\<rparr>) (planets s)"
  by (simp add: drawSolarSystem_def Let_def movePlanet_def speedMultiplier_def)

lemma planets_step:
  "planets (step e s) = (if e = AnimationFrame then planets (drawSolarSystem s) else planets s)"
  by (cases e)
     (simp_all add: planets_handleMessage planets_toggleAgent planets_connect
        planets_ws_onopen planets_ws_onclose planets_ws_onerror ws_onmessage_def
        split: option.split list.split callback.split prod.split)

text \<open>
  C3. On every frame each planet's speed multiplier is 3 when \<open>vadSpeaking\<close> is set,
  else \<open>animationSpeed\<close> when \<open>running\<close> is set, else 0.3, and the planet's angle
  advances by its speed times that multiplier. No other function of the script and no
  other event changes a planet.
\<close>

theorem angles_change_only_in_frame:
  "planets (drawSolarSystem s)
     = map (\<lambda>p. p\<lparr>angle := angle p + speed p *
                 (if vadSpeaking (state s) then 3
                  else if running (state s) then animationSpeed s else 0.3)\<rparr>) (planets s)
   \<and> planets (handleMessage msg s) = planets s
   \<and> planets (toggleAgent s) = planets s
   \<and> planets (connect s) = planets s
   \<and> planets (ws_onopen s) = planets s
   \<and> planets (ws_onclose s) = planets s
   \<and> planets (ws_onerror s) = planets s
   \<and> planets (ws_onmessage msg s) = planets s
   \<and> planets (updateUI s) = planets s
   \<and> planets (updateConnectionStatus b s) = planets s
   \<and> planets (step e s)
       = (if e = AnimationFrame then planets (drawSolarSystem s) else planets s)"
  by (simp add: planets_drawSolarSystem speedMultiplier_def planets_handleMessage
        planets_toggleAgent planets_connect planets_ws_onopen planets_ws_onclose
        planets_ws_onerror ws_onmessage_def updateUI_def updateAgentStatus_def
        updateSpeakerStatus_def updateVADStatus_def updateConnectionStatus_def Let_def
        planets_step del: step.simps)

subsection \<open>Planet angles over time\<close>

lemma animationSpeed_handleMessage:
  "0 \<le> animationSpeed s \<Longrightarrow> 0 \<le> animationSpeed (handleMessage msg s)"
  by (cases msg)
     (simp_all add: updateUI_def updateAgentStatus_def updateSpeakerStatus_def
        updateVADStatus_def Let_def)

lemma animationSpeed_step: "0 \<le> animationSpeed s \<Longrightarrow> 0 \<le> animationSpeed (step e s)"
  by (cases e)
     (simp_all add: animationSpeed_handleMessage ws_onmessage_def connect_def
        drawSolarSystem_def Let_def ws_onopen_def ws_onclose_def ws_onerror_def
        updateConnectionStatus_def console_log_def console_error_def setTimeout_def
        toggleAgent_def ws_send_def
        split: option.split list.split callback.split prod.split)

lemma speedMultiplier_nonneg: "0 \<le> animationSpeed s \<Longrightarrow> 0 \<le> speedMultiplier s"
  by (simp add: speedMultiplier_def)

lemma speeds_ok_step: "speeds_ok s \<Longrightarrow> speeds_ok (step e s)"
  by (simp add: speeds_ok_def animationSpeed_step planets_step planets_drawSolarSystem
        list_all_iff)

lemma speeds_ok_initial: "speeds_ok (initial d)"
  by (simp add: speeds_ok_def initial_def planets_init_def)

lemma speeds_ok_run: "speeds_ok s \<Longrightarrow> speeds_ok (run es s)"
  by (induction es arbitrary: s) (simp_all add: speeds_ok_step)

lemma later_refl: "list_all2 later ps ps"
  by (simp add: list_all2_conv_all_nth later_def)

lemma later_frame: "speeds_ok s \<Longrightarrow> list_all2 later (planets s) (planets (drawSolarSystem s))"
  by (simp add: planets_drawSolarSystem list_all2_conv_all_nth later_def speeds_ok_def
        list_all_length speedMultiplier_nonneg)

lemma later_step: "speeds_ok s \<Longrightarrow> list_all2 later (planets s) (planets (step e s))"
  by (simp add: planets_step later_frame later_refl)

lemma later_trans:
  "list_all2 later ps qs \<Longrightarrow> list_all2 later qs rs \<Longrightarrow> list_all2 later ps rs"
proof -
  have "later a c" if "later a b" and "later b c" for a b c
    using that by (auto simp: later_def)
  then show "list_all2 later ps qs \<Longrightarrow> list_all2 later qs rs \<Longrightarrow> list_all2 later ps rs"
    by (rule list_all2_trans)
qed

lemma later_run: "speeds_ok s \<Longrightarrow> list_all2 later (planets s) (planets (run es s))"
proof (induction es arbitrary: s)
  case Nil
  show ?case by (simp add: later_refl)
next
  case (Cons e es)
  have "list_all2 later (planets s) (planets (step e s))"
    using Cons.prems by (rule later_step)
  moreover have "list_all2 later (planets (step e s)) (planets (run es (step e s)))"
    using Cons.prems by (intro Cons.IH speeds_ok_step)
  ultimately show ?case
    by (simp add: later_trans)
qed

lemma run_append: "run (es @ es') s = run es' (run es s)"
  by (induction es arbitrary: s) simp_all

lemma speedMultiplier_frame: "speedMultiplier (drawSolarSystem s) = speedMultiplier s"
  by (simp add: speedMultiplier_def drawSolarSystem_def Let_def)

lemma planets_frames:
  "planets ((drawSolarSystem ^^ n) s)
     = map (\<lambda>p. p\<lparr>angle := angle p + real n * (speed p * speedMultiplier s)\<rparr>) (planets s)"
proof (induction n)
  case 0
  show ?case by (simp add: map_idI)
next
  case (Suc n)
  have sm: "speedMultiplier ((drawSolarSystem ^^ n) s) = speedMultiplier s"
    by (induction n) (simp_all add: speedMultiplier_frame)
  show ?case
    by (simp add: planets_drawSolarSystem Suc.IH sm o_def algebra_simps)
qed

text \<open>
  C5, as the specification states it: while frames are rendered every planet's angle
  wraps at \<open>2\<pi>\<close> and never decreases. The script adds to the angle and never reduces
  it: from the start of the script Mercury's angle is \<open>8.4\<close> after 700 frames, which is
  not below \<open>2\<pi>\<close>.
\<close>

theorem angle_exceeds_full_turn_counterexample:
  "name (planets (run (replicate 700 AnimationFrame) (initial empty_page)) ! 0) = ''Mercury''
   \<and> angle (planets (run (replicate 700 AnimationFrame) (initial empty_page)) ! 0) = 8.4
   \<and> \<not> angle (planets (run (replicate 700 AnimationFrame) (initial empty_page)) ! 0)
         < 2 * pi"
  using pi_less_4
  by (simp add: run_frames planets_frames initial_def planets_init_def speedMultiplier_def)

text \<open>
  C5, amended: every planet's angle never decreases, over the frames and over every
  other event that happens between them, from the start of the script on; the angle is
  not wrapped at \<open>2\<pi>\<close>.
\<close>

theorem planet_angles_never_decrease:
  "list_all2 (\<lambda>p q. name q = name p \<and> angle p \<le> angle q)
     (planets (run es (initial d))) (planets (run (es @ es') (initial d)))"
  using later_run [OF speeds_ok_run [OF speeds_ok_initial], of es d es']
  by (simp add: run_append later_def [abs_def])

subsection \<open>The colour ramp of the sun's glow\<close>

lemma tier_ramp_inj: "tier_ramp t i = tier_ramp u i \<Longrightarrow> t = u"
  by (cases t; cases u) simp_all

text \<open>
  C4. For every state the colour ramp of the sun's glow is chosen by the priority
  speaking, verified, running, idle, in every one of the five glow layers. When
  \<open>vadSpeaking\<close> and \<open>speakerVerified\<close> are both set the frame uses the speaking ramp
  and not the verified ramp; the ramps of different tiers differ.
\<close>

theorem glow_tier_by_priority:
  "glowStops s i = tier_ramp (priority_tier (state s)) i
   \<and> sunGlow s = map (tier_ramp (priority_tier (state s))) [5, 4, 3, 2, 1]
   \<and> (vadSpeaking (state s) \<and> speakerVerified (state s) \<longrightarrow>
        glowStops s i = tier_ramp Speaking i \<and> glowStops s i \<noteq> tier_ramp Verified i)
   \<and> inj (\<lambda>t. tier_ramp t i)"
proof -
  have a: "glowStops s j = tier_ramp (priority_tier (state s)) j" for j
    by (simp add: glowStops_def priority_tier_def)
  have b: "tier_ramp Speaking i \<noteq> tier_ramp Verified i"
    by simp
  have c: "inj (\<lambda>t. tier_ramp t i)"
    by (rule injI) (rule tier_ramp_inj)
  have d: "priority_tier (state s) = Speaking" if "vadSpeaking (state s)"
    using that by (simp add: priority_tier_def)
  show ?thesis
    using a b c d by (simp add: sunGlow_def)
qed

theorem glow_tier_by_priority_witness:
  "vadSpeaking (state (handleMessage (State_msg True True 0.9 True) (initial empty_page)))
   \<and> speakerVerified (state (handleMessage (State_msg True True 0.9 True) (initial empty_page)))
   \<and> glowStops (handleMessage (State_msg True True 0.9 True) (initial empty_page)) 1
       = [(0, Rgba 255 215 0 0.3), (0.5, Rgba 255 165 0 0.2), (1, Transparent)]
   \<and> glowStops (handleMessage (State_msg True True 0.9 True) (initial empty_page)) 1
       \<noteq> tier_ramp Verified 1"
proof -
  let ?s = "handleMessage (State_msg True True 0.9 True) (initial empty_page)"
  have flags: "vadSpeaking (state ?s)" "speakerVerified (state ?s)"
    by (simp_all add: initial_def updateUI_def updateAgentStatus_def updateSpeakerStatus_def
          updateVADStatus_def Let_def)
  with glow_tier_by_priority [of ?s 1]
  have "glowStops ?s 1 = tier_ramp Speaking 1 \<and> glowStops ?s 1 \<noteq> tier_ramp Verified 1"
    by blast
  with flags show ?thesis
    by simp
qed

subsection \<open>Repeated state messages\<close>

lemma state_message_twice:
  "handleMessage (State_msg r v sc sp) (handleMessage (State_msg r v sc sp) s)
     = handleMessage (State_msg r v sc sp) s"
  by (cases r; cases v; cases sp;
      simp add: updateUI_def updateAgentStatus_def updateSpeakerStatus_def
        updateVADStatus_def Let_def)

lemma updateUI_after_state_message:
  "updateUI (handleMessage (State_msg r v sc sp) s) = handleMessage (State_msg r v sc sp) s"
  by (cases r; cases v; cases sp;
      simp add: updateUI_def updateAgentStatus_def updateSpeakerStatus_def
        updateVADStatus_def Let_def)

lemma updateAgentStatus_after_state_message:
  "updateAgentStatus (handleMessage (State_msg r v sc sp) s)
     = handleMessage (State_msg r v sc sp) s"
  by (cases r; cases v; cases sp;
      simp add: updateUI_def updateAgentStatus_def updateSpeakerStatus_def
        updateVADStatus_def Let_def)

lemma updateSpeakerStatus_after_state_message:
  "updateSpeakerStatus (handleMessage (State_msg r v sc sp) s)
     = handleMessage (State_msg r v sc sp) s"
  by (cases r; cases v; cases sp;
      simp add: updateUI_def updateAgentStatus_def updateSpeakerStatus_def
        updateVADStatus_def Let_def)

lemma updateVADStatus_after_state_message:
  "updateVADStatus (handleMessage (State_msg r v sc sp) s)
     = handleMessage (State_msg r v sc sp) s"
  by (cases r; cases v; cases sp;
      simp add: updateUI_def updateAgentStatus_def updateSpeakerStatus_def
        updateVADStatus_def Let_def)

text \<open>
  C6. Handling the same \<open>state\<close> message a second time leaves every variable of the
  script and everything shown on the page as the first handling left them; and computing
  any of the status displays again from that state changes nothing.
\<close>

theorem state_message_idempotent:
  "handleMessage (State_msg r v sc sp) (handleMessage (State_msg r v sc sp) s)
     = handleMessage (State_msg r v sc sp) s
   \<and> updateUI (handleMessage (State_msg r v sc sp) s) = handleMessage (State_msg r v sc sp) s
   \<and> updateAgentStatus (handleMessage (State_msg r v sc sp) s)
       = handleMessage (State_msg r v sc sp) s
   \<and> updateSpeakerStatus (handleMessage (State_msg r v sc sp) s)
       = handleMessage (State_msg r v sc sp) s
   \<and> updateVADStatus (handleMessage (State_msg r v sc sp) s)
       = handleMessage (State_msg r v sc sp) s"
  by (simp only: state_message_twice updateUI_after_state_message
        updateAgentStatus_after_state_message updateSpeakerStatus_after_state_message
        updateVADStatus_after_state_message simp_thms)

subsection \<open>The start/stop control without an open connection\<close>

text \<open>
  C7. When the socket is missing or not open, the start/stop control gives no frame to
  the socket and leaves \<open>running\<close> (and the rest of the state) alone; all it does is
  write one error line to the console.
\<close>

theorem toggle_while_not_open:
  "ws s \<noteq> Some OPEN \<Longrightarrow>
     toggleAgent s = s\<lparr>console := console s @ [Error ''WebSocket not connected'']\<rparr>
     \<and> sent (toggleAgent s) = sent s
     \<and> state (toggleAgent s) = state s"
  by (simp add: toggleAgent_def console_error_def)

theorem toggle_while_not_open_witness:
  "ws (connect (initial empty_page)) \<noteq> Some OPEN
   \<and> sent (toggleAgent (connect (initial empty_page))) = []
   \<and> running (state (toggleAgent (connect (initial empty_page)))) = False
   \<and> console (toggleAgent (connect (initial empty_page))) = [Error ''WebSocket not connected'']"
  using toggle_while_not_open [of "connect (initial empty_page)"]
  by (simp add: connect_def initial_def)

subsection \<open>Reconnecting\<close>

lemma timers_ws_onclose: "timers (ws_onclose s) = timers s @ [(Connect, 2000)]"
  by (simp add: ws_onclose_def setTimeout_def updateConnectionStatus_def console_log_def)

lemma ws_ws_onclose: "ws (ws_onclose s) = ws s"
  by (simp add: ws_onclose_def setTimeout_def updateConnectionStatus_def console_log_def)

lemma close_and_retry_idle:
  assumes "ws s \<noteq> None" and "timers s = []"
  shows "timers (step WsClose s) = [(Connect, 2000)]"
    and "timers (close_and_retry s) = []"
    and "ws (close_and_retry s) = Some CONNECTING"
  using assms
  by (auto simp: close_and_retry_def timers_ws_onclose connect_def)

lemma retry_rounds:
  assumes "ws s \<noteq> None" and "timers s = []"
  shows "ws ((close_and_retry ^^ n) s) \<noteq> None \<and> timers ((close_and_retry ^^ n) s) = []"
proof (induction n)
  case 0
  show ?case using assms by simp
next
  case (Suc n)
  then show ?case
    by (simp add: close_and_retry_idle)
qed

text \<open>
  C8. The close handler schedules exactly one more timer, which calls \<open>connect\<close> after
  2000 ms. After any number \<open>n\<close> of attempts that each ended in a close, the next close
  again schedules exactly that one timer with the same delay, and when it fires there is
  a new connecting socket and no timer left.
\<close>

theorem reconnect_after_every_close:
  "timers (ws_onclose s) = timers s @ [(Connect, 2000)]
   \<and> (ws s \<noteq> None \<and> timers s = [] \<longrightarrow>
        timers (step WsClose ((close_and_retry ^^ n) s)) = [(Connect, 2000)]
        \<and> timers (close_and_retry ((close_and_retry ^^ n) s)) = []
        \<and> ws (close_and_retry ((close_and_retry ^^ n) s)) = Some CONNECTING)"
proof -
  let ?t = "(close_and_retry ^^ n) s"
  have "timers (step WsClose ?t) = [(Connect, 2000)]
        \<and> timers (close_and_retry ?t) = [] \<and> ws (close_and_retry ?t) = Some CONNECTING"
    if "ws s \<noteq> None \<and> timers s = []"
  proof -
    from that have "ws ?t \<noteq> None" and "timers ?t = []"
      using retry_rounds [of s n] by simp_all
    then show ?thesis
      by (simp only: close_and_retry_idle simp_thms)
  qed
  with timers_ws_onclose [of s] show ?thesis
    by blast
qed

theorem reconnect_after_every_close_witness:
  "ws (connect (initial empty_page)) \<noteq> None \<and> timers (connect (initial empty_page)) = []
   \<and> timers (step WsClose ((close_and_retry ^^ 3) (connect (initial empty_page))))
       = [(Connect, 2000)]
   \<and> ws (close_and_retry ((close_and_retry ^^ 3) (connect (initial empty_page))))
       = Some CONNECTING"
proof -
  have "ws (connect (initial empty_page)) \<noteq> None \<and> timers (connect (initial empty_page)) = []"
    by (simp add: connect_def initial_def)
  with reconnect_after_every_close [of "connect (initial empty_page)" 3]
  show ?thesis by blast
qed

subsection \<open>A speaker message on the page\<close>

lemma round87: "Math_round 87 = 87"
  by (simp add: Math_round_def)

lemma str87: "toString 87 = ''87''"
  by code_simp

text \<open>
  C9, as the specification states it: after the message
  \<open>{"type":"speaker","verified":true,"score":0.87}\<close> the speaker badge shows
  "Verified". When the page has been loaded and the socket has opened, and no message has
  yet set \<open>running\<close>, the badge shows "Waiting..." after this message.
\<close>

theorem speaker_message_while_stopped_counterexample:
  "badge_text_textContent
     (page (run [DOMContentLoaded, WsOpen, WsMessage (Speaker_msg True 0.87)]
              (script_loaded empty_page)))
     = ''Waiting...''
   \<and> badge_text_textContent
       (page (run [DOMContentLoaded, WsOpen, WsMessage (Speaker_msg True 0.87)]
                (script_loaded empty_page)))
     \<noteq> ''Verified''"
  by (simp add: script_loaded_def initial_def drawSolarSystem_def connect_def ws_onopen_def
        ws_onmessage_def updateConnectionStatus_def console_log_def
        updateSpeakerStatus_def Let_def)

text \<open>
  C9, amended: after that message the progress fill is 87 percent; the speaker badge
  shows the verified state when \<open>running\<close> is set, and the waiting state when it is not.
\<close>

theorem speaker_message_display:
  "score_fill_style_width (page (handleMessage (Speaker_msg True 0.87) s)) = ''87%''
   \<and> score_value_textContent (page (handleMessage (Speaker_msg True 0.87) s)) = ''87%''
   \<and> (running (state s) \<longrightarrow>
        badge_text_textContent (page (handleMessage (Speaker_msg True 0.87) s)) = ''Verified''
        \<and> speaker_badge_className (page (handleMessage (Speaker_msg True 0.87) s))
            = ''speaker-badge verified''
        \<and> badge_icon_textContent (page (handleMessage (Speaker_msg True 0.87) s))
            = [CHR 0xE2, CHR 0x9C, CHR 0x85])
   \<and> (\<not> running (state s) \<longrightarrow>
        badge_text_textContent (page (handleMessage (Speaker_msg True 0.87) s)) = ''Waiting...''
        \<and> speaker_badge_className (page (handleMessage (Speaker_msg True 0.87) s))
            = ''speaker-badge unknown'')"
  by (cases "running (state s)")
     (simp_all add: updateSpeakerStatus_def Let_def round87 str87)

theorem speaker_message_display_witness:
  "running (state (handleMessage (Status_msg True) (initial empty_page)))
   \<and> badge_text_textContent (page (handleMessage (Speaker_msg True 0.87)
        (handleMessage (Status_msg True) (initial empty_page)))) = ''Verified''
   \<and> score_fill_style_width (page (handleMessage (Speaker_msg True 0.87)
        (handleMessage (Status_msg True) (initial empty_page)))) = ''87%''"
proof -
  have "running (state (handleMessage (Status_msg True) (initial empty_page)))"
    by (simp add: updateAgentStatus_def)
  with speaker_message_display [of "handleMessage (Status_msg True) (initial empty_page)"]
  show ?thesis by blast
qed

subsection \<open>Lighter and darker colours\<close>

lemma hexDigitValue_less: "hexDigitValue c = Some d \<Longrightarrow> d < 16"
  by (auto simp: hexDigitValue_def Let_def split: if_splits)

lemma hex_digit_not_special:
  assumes "hex_digit c"
  shows "\<not> isWhiteSpace c" "c \<noteq> CHR ''-''" "c \<noteq> CHR ''+''" "c \<noteq> CHR ''x''"
    "c \<noteq> CHR ''X''" "c \<noteq> CHR ''#''"
  using assms
  by (auto simp: hex_digit_def hexDigitValue_def isWhiteSpace_def Let_def split: if_splits)

lemma channel_of_range: "0 \<le> channel_of a b \<and> channel_of a b \<le> 255"
proof (cases "hexDigitValue a")
  case None
  then show ?thesis by (simp add: channel_of_def)
next
  case (Some h)
  note h = this
  show ?thesis
  proof (cases "hexDigitValue b")
    case None
    then show ?thesis by (simp add: channel_of_def h)
  next
    case (Some l)
    from hexDigitValue_less [OF h] hexDigitValue_less [OF Some] show ?thesis
      by (simp add: channel_of_def h Some)
  qed
qed

lemma and_255: "(n :: int) AND 255 = n mod 256"
proof -
  have "n AND 255 = n AND mask 8"
    by (simp add: mask_eq_exp_minus_1)
  also have "\<dots> = take_bit 8 n"
    by (simp add: take_bit_eq_mask)
  finally show ?thesis
    by (simp add: take_bit_eq_mod)
qed

lemma wrap32_small: "0 \<le> n \<Longrightarrow> n < 2 ^ 31 \<Longrightarrow> wrap32 n = n"
  by (simp add: wrap32_def)

lemma channels_of_number:
  fixes r g b :: int
  assumes "0 \<le> r" "r \<le> 255" "0 \<le> g" "g \<le> 255" "0 \<le> b" "b \<le> 255"
  shows "drop_bit 16 (ToInt32 (Some (65536 * r + 256 * g + b))) = r"
    and "wrap32 (drop_bit 8 (ToInt32 (Some (65536 * r + 256 * g + b)))) AND wrap32 0x00FF = g"
    and "ToInt32 (Some (65536 * r + 256 * g + b)) AND wrap32 0x0000FF = b"
proof -
  let ?n = "65536 * r + 256 * g + b"
  have n: "0 \<le> ?n" "?n < 2 ^ 31"
    using assms by simp_all
  have w: "ToInt32 (Some ?n) = ?n"
    using n by (simp add: ToInt32_def wrap32_small)
  have m: "wrap32 255 = 255"
    by (simp add: wrap32_def)
  have d8: "drop_bit 8 ?n = 256 * r + g"
    using assms by (simp add: drop_bit_eq_div)
  have w8: "wrap32 (256 * r + g) = 256 * r + g"
    using assms by (intro wrap32_small) simp_all
  show "drop_bit 16 (ToInt32 (Some ?n)) = r"
    using assms by (simp add: w drop_bit_eq_div)
  show "wrap32 (drop_bit 8 (ToInt32 (Some ?n))) AND wrap32 0x00FF = g"
    using assms by (simp add: w d8 w8 m and_255)
  have "?n = b + 256 * (256 * r + g)"
    by simp
  then have "?n mod 256 = b mod 256"
    by (simp only: mod_mult_self2)
  then have lo: "?n mod 256 = b"
    using assms by simp
  show "ToInt32 (Some ?n) AND wrap32 0x0000FF = b"
    by (simp only: w m and_255 lo)
qed

lemma parse_hex_colour:
  assumes "list_all hex_digit [c1, c2, c3, c4, c5, c6]"
  shows "parseInt16 (replace_first CHR ''#'' [] (CHR ''#'' # [c1, c2, c3, c4, c5, c6]))
           = Some (65536 * channel_of c1 c2 + 256 * channel_of c3 c4 + channel_of c5 c6)"
proof -
  from assms obtain d1 d2 d3 d4 d5 d6 where
    d: "hexDigitValue c1 = Some d1" "hexDigitValue c2 = Some d2" "hexDigitValue c3 = Some d3"
       "hexDigitValue c4 = Some d4" "hexDigitValue c5 = Some d5" "hexDigitValue c6 = Some d6"
    by (auto simp: hex_digit_def)
  have c: "hex_digit c1" "hex_digit c2"
    using assms by simp_all
  have rf: "replace_first CHR ''#'' [] (CHR ''#'' # [c1, c2, c3, c4, c5, c6])
              = [c1, c2, c3, c4, c5, c6]"
    by simp
  have dw: "dropWhile isWhiteSpace [c1, c2, c3, c4, c5, c6] = [c1, c2, c3, c4, c5, c6]"
    using hex_digit_not_special [OF c(1)] by simp
  have sign: "strip_sign [c1, c2, c3, c4, c5, c6] = (1, [c1, c2, c3, c4, c5, c6])"
    using hex_digit_not_special [OF c(1)] by (simp add: strip_sign_def)
  have x: "strip_0x [c1, c2, c3, c4, c5, c6] = [c1, c2, c3, c4, c5, c6]"
    using hex_digit_not_special [OF c(2)] by (simp add: strip_0x_def)
  have p: "hexPrefix [c1, c2, c3, c4, c5, c6] = [d1, d2, d3, d4, d5, d6]"
    by (simp add: d)
  show ?thesis
    unfolding parseInt16_def rf dw sign
    by (simp add: x p channel_of_def d)
qed

lemma lightenColor_hex:
  assumes "list_all hex_digit [c1, c2, c3, c4, c5, c6]"
  shows "lightenColor (CHR ''#'' # [c1, c2, c3, c4, c5, c6]) percent
           = rgb (min 255 (channel_of c1 c2 + blend_amount percent))
                 (min 255 (channel_of c3 c4 + blend_amount percent))
                 (min 255 (channel_of c5 c6 + blend_amount percent))"
  unfolding lightenColor_def blend_amount_def Let_def parse_hex_colour [OF assms]
  using channel_of_range [of c1 c2] channel_of_range [of c3 c4] channel_of_range [of c5 c6]
  by (simp only: channels_of_number)

lemma darkenColor_hex:
  assumes "list_all hex_digit [c1, c2, c3, c4, c5, c6]"
  shows "darkenColor (CHR ''#'' # [c1, c2, c3, c4, c5, c6]) percent
           = rgb (max 0 (channel_of c1 c2 - blend_amount percent))
                 (max 0 (channel_of c3 c4 - blend_amount percent))
                 (max 0 (channel_of c5 c6 - blend_amount percent))"
  unfolding darkenColor_def blend_amount_def Let_def parse_hex_colour [OF assms]
  using channel_of_range [of c1 c2] channel_of_range [of c3 c4] channel_of_range [of c5 c6]
  by (simp only: channels_of_number)

lemma hex_digits_000000: "list_all hex_digit ''000000''"
  by (simp add: hex_digit_def hexDigitValue_def)

lemma hex_digits_ffffff: "list_all hex_digit ''ffffff''"
  by (simp add: hex_digit_def hexDigitValue_def)

lemma hex_digits_6b93d6: "list_all hex_digit ''6b93d6''"
  by (simp add: hex_digit_def hexDigitValue_def)

text \<open>The amount at the percentages 50, 40 and -20, with every rounding.\<close>

lemma double_of_2_55: "double_of 2.55 = 2871044762448691 / 2 ^ 50"
  by (subst double_of_eval [where k = 1]) (simp_all add: power_int_minus rne_def Let_def)

lemma product_at_50: "times_double (2871044762448691 / 2 ^ 50) 50 = 8972014882652159 / 2 ^ 46"
  unfolding times_double_def
  by (subst double_of_eval [where k = 6]) (simp_all add: power_int_minus rne_def Let_def)

lemma product_at_40: "times_double (2871044762448691 / 2 ^ 50) 40 = 102"
  unfolding times_double_def
  by (subst double_of_eval [where k = 6]) (simp_all add: power_int_minus rne_def Let_def)

lemma product_at_minus_20: "times_double (2871044762448691 / 2 ^ 50) (- 20) = - 51"
  unfolding times_double_def
  by (subst double_of_eval [where k = 5]) (simp_all add: power_int_minus rne_def Let_def)

lemma blend_amount_50: "blend_amount 50 = 127"
  unfolding blend_amount_def double_of_2_55 product_at_50
  by (simp add: Math_round_def)

lemma blend_amount_40: "blend_amount 40 = 102"
  unfolding blend_amount_def double_of_2_55 product_at_40
  by (simp add: Math_round_def)

lemma blend_amount_minus_20: "blend_amount (- 20) = - 51"
  unfolding blend_amount_def double_of_2_55 product_at_minus_20
  by (simp add: Math_round_def)

text \<open>
  C10, as the specification states it: for every percent, \<open>round(2.55 * percent)\<close> is
  added to or subtracted from each channel and each channel of the result is clamped to
  the range from 0 to 255. \<open>lightenColor\<close> only caps a channel at 255 and
  \<open>darkenColor\<close> only stops it at 0, so a negative percent leaves the range. And the
  amount is rounded from the product in double precision: at 50 percent that product is
  just below 127.5 and the amount is 127, where \<open>2.55 * 50\<close> is 127.5 and rounds to
  128.
\<close>

theorem negative_percent_counterexample:
  "lightenColor ''#000000'' (- 20) = ''rgb(-51, -51, -51)''
   \<and> darkenColor ''#ffffff'' (- 20) = ''rgb(306, 306, 306)''
   \<and> lightenColor ''#000000'' 50 = ''rgb(127, 127, 127)''
   \<and> Math_round (2.55 * 50) = 128"
proof -
  have ch: "channel_of CHR ''0'' CHR ''0'' = 0" "channel_of CHR ''f'' CHR ''f'' = 255"
    by (simp_all add: channel_of_def hexDigitValue_def)
  have s1: "rgb (- 51) (- 51) (- 51) = ''rgb(-51, -51, -51)''"
    by code_simp
  have s2: "rgb 306 306 306 = ''rgb(306, 306, 306)''"
    by code_simp
  have s3: "rgb 127 127 127 = ''rgb(127, 127, 127)''"
    by code_simp
  have "lightenColor ''#000000'' (- 20) = rgb (- 51) (- 51) (- 51)"
    by (simp add: lightenColor_hex [OF hex_digits_000000] blend_amount_minus_20 ch)
  moreover have "darkenColor ''#ffffff'' (- 20) = rgb 306 306 306"
    by (simp add: darkenColor_hex [OF hex_digits_ffffff] blend_amount_minus_20 ch)
  moreover have "lightenColor ''#000000'' 50 = rgb 127 127 127"
    by (simp add: lightenColor_hex [OF hex_digits_000000] blend_amount_50 ch)
  moreover have "Math_round (2.55 * 50) = 128"
    by (simp add: Math_round_def)
  ultimately show ?thesis
    by (simp only: s1 s2 s3)
qed

text \<open>
  C10, amended: for every 24-bit hex colour and every percent whose amount, that is
  \<open>Math.round\<close> of the product \<open>2.55 * percent\<close> in double precision, is at least
  \<open>-2^52\<close>: \<open>lightenColor\<close> adds the amount to each of the three channels and caps the
  sum at 255, \<open>darkenColor\<close> subtracts it and stops at 0, and each prints the three
  numbers as an \<open>rgb(...)\<close> colour; when the amount is not negative every channel of
  both results is between 0 and 255. Both are functions of their two arguments alone.
\<close>

theorem colour_blend:
  "list_all hex_digit [c1, c2, c3, c4, c5, c6] \<Longrightarrow> - (2 ^ 52) \<le> blend_amount percent \<Longrightarrow>
     blend_amount percent = Math_round (times_double (double_of 2.55) percent)
     \<and> lightenColor (CHR ''#'' # [c1, c2, c3, c4, c5, c6]) percent
       = rgb (min 255 (channel_of c1 c2 + blend_amount percent))
             (min 255 (channel_of c3 c4 + blend_amount percent))
             (min 255 (channel_of c5 c6 + blend_amount percent))
     \<and> darkenColor (CHR ''#'' # [c1, c2, c3, c4, c5, c6]) percent
       = rgb (max 0 (channel_of c1 c2 - blend_amount percent))
             (max 0 (channel_of c3 c4 - blend_amount percent))
             (max 0 (channel_of c5 c6 - blend_amount percent))
     \<and> (0 \<le> blend_amount percent \<longrightarrow>
          list_all (\<lambda>ch. 0 \<le> min 255 (ch + blend_amount percent)
                         \<and> min 255 (ch + blend_amount percent) \<le> 255
                         \<and> 0 \<le> max 0 (ch - blend_amount percent)
                         \<and> max 0 (ch - blend_amount percent) \<le> 255)
            [channel_of c1 c2, channel_of c3 c4, channel_of c5 c6])"
proof -
  assume h: "list_all hex_digit [c1, c2, c3, c4, c5, c6]"
  have range: "0 \<le> min 255 (channel_of a b + k) \<and> min 255 (channel_of a b + k) \<le> 255
               \<and> 0 \<le> max 0 (channel_of a b - k) \<and> max 0 (channel_of a b - k) \<le> 255"
    if "0 \<le> k" for a b k
    using channel_of_range [of a b] that by simp
  show ?thesis
    using lightenColor_hex [OF h, of percent] darkenColor_hex [OF h, of percent] range
    by (simp add: blend_amount_def)
qed

theorem colour_blend_witness:
  "list_all hex_digit ''6b93d6'' \<and> - (2 ^ 52) \<le> blend_amount 40 \<and> 0 \<le> blend_amount 40
   \<and> lightenColor ''#6b93d6'' 40 = ''rgb(209, 249, 255)''
   \<and> darkenColor ''#6b93d6'' 40 = ''rgb(5, 45, 112)''"
proof -
  have ch: "channel_of CHR ''6'' CHR ''b'' = 107" "channel_of CHR ''9'' CHR ''3'' = 147"
    "channel_of CHR ''d'' CHR ''6'' = 214"
    by (simp_all add: channel_of_def hexDigitValue_def)
  have s1: "rgb 209 249 255 = ''rgb(209, 249, 255)''"
    by code_simp
  have s2: "rgb 5 45 112 = ''rgb(5, 45, 112)''"
    by code_simp
  have a: "- (2 ^ 52) \<le> blend_amount 40"
    by (simp add: blend_amount_40)
  from colour_blend [OF hex_digits_6b93d6 a]
  have "lightenColor ''#6b93d6'' 40
          = rgb (min 255 (channel_of CHR ''6'' CHR ''b'' + blend_amount 40))
                (min 255 (channel_of CHR ''9'' CHR ''3'' + blend_amount 40))
                (min 255 (channel_of CHR ''d'' CHR ''6'' + blend_amount 40))
        \<and> darkenColor ''#6b93d6'' 40
          = rgb (max 0 (channel_of CHR ''6'' CHR ''b'' - blend_amount 40))
                (max 0 (channel_of CHR ''9'' CHR ''3'' - blend_amount 40))
                (max 0 (channel_of CHR ''d'' CHR ''6'' - blend_amount 40))"
    by simp
  then have "lightenColor ''#6b93d6'' 40 = rgb 209 249 255
        \<and> darkenColor ''#6b93d6'' 40 = rgb 5 45 112"
    by (simp add: blend_amount_40 ch)
  then show ?thesis
    using hex_digits_6b93d6 by (simp add: s1 s2 blend_amount_40)
qed

end
